theory Spec2Isabelle
  imports Main
begin

section \<open>The location of a micro app (src/sandbox/router/location.ts)\<close>

subsection \<open>Data\<close>

text \<open>
  \<^verbatim>\<open>shadowLocation\<close> is the object literal of lines 20-25: the four components the
  micro app currently believes in.
\<close>

record shadowLocation =
  href :: string
  pathname :: string
  search :: string
  hash :: string

text \<open>
  A URL object as \<^verbatim>\<open>createURL\<close> returns it: the four components above and the
  remaining properties the file reads.
\<close>

record URL = shadowLocation +
  origin :: string
  host :: string
  hostname :: string
  port :: string
  protocol :: string
  password :: string

text \<open>
  \<^verbatim>\<open>microLocation\<close> is a URL object that additionally carries the property
  \<^verbatim>\<open>shadowLocation\<close> (\<^verbatim>\<open>oAssign\<close>, lines 84-89). Its accessors for href, pathname,
  search and hash are redefined (lines 95-157) and read the shadow, see the getters below.
\<close>

record MicroLocation = URL +
  shadowLocation :: shadowLocation

text \<open>The result of the path codec \<^verbatim>\<open>setMicroPathToURL\<close> (imported from ./core).\<close>

record setMicroPathResult =
  fullPath :: string
  attach2Hash :: bool

text \<open>A value of the TypeScript type \<^verbatim>\<open>string | URL\<close>.\<close>

datatype string_or_URL = String string | URLObject URL

text \<open>
  \<^verbatim>\<open>createURL\<close> stringifies its first argument (\<^verbatim>\<open>'' + path\<close>); a URL object
  stringifies to its href.
\<close>

fun toString :: "string_or_URL \<Rightarrow> string" where
  "toString (String s) = s"
| "toString (URLObject u) = href u"

text \<open>
  JavaScript truthiness of a value of type \<^verbatim>\<open>string | URL | undefined\<close>, as tested by
  \<^verbatim>\<open>if (formattedValue)\<close>: \<^verbatim>\<open>undefined\<close> and the empty string are falsy.
\<close>

fun truthy :: "string_or_URL option \<Rightarrow> bool" where
  "truthy None = False"
| "truthy (Some (String s)) = (s \<noteq> [])"
| "truthy (Some (URLObject u)) = True"

text \<open>
  \<^verbatim>\<open>if (formattedValue) act(formattedValue)\<close>: the action runs on a truthy value only.
\<close>

definition whenTruthy ::
  "string_or_URL option \<Rightarrow> (string_or_URL \<Rightarrow> 's \<Rightarrow> 's) \<Rightarrow> 's \<Rightarrow> 's" where
  "whenTruthy formattedValue act s =
     (case formattedValue of
        None \<Rightarrow> s
      | Some v \<Rightarrow> if truthy (Some v) then act v s else s)"

text \<open>The only failure of the file: the URL constructor rejects its input.\<close>

datatype error = TypeError

text \<open>
  The two arguments of \<^verbatim>\<open>createMicroLocation\<close> and the two pure collaborators the file
  imports (\<^verbatim>\<open>createURL\<close> from libs/utils, \<^verbatim>\<open>setMicroPathToURL\<close> from ./core), all
  captured by the closures of that function. The collaborators are not part of the source
  at hand and are parameters of the model. \<^verbatim>\<open>createURL path base\<close> is \<^verbatim>\<open>None\<close>
  where the URL constructor throws.
\<close>

record env =
  appName :: string
  url :: string
  createURL :: "string \<Rightarrow> string option \<Rightarrow> URL option"
  setMicroPathToURL :: "string \<Rightarrow> URL \<Rightarrow> setMicroPathResult"

subsection \<open>Effects on the real window\<close>

text \<open>
  Every call into the real window is recorded, in order:
  \<^item> \<^verbatim>\<open>rawWindow.history[methodName](null, '', fullPath)\<close>,
  \<^item> \<^verbatim>\<open>rawLocation.reload(forcedReload)\<close>,
  \<^item> \<^verbatim>\<open>dispatchPurePopStateEvent()\<close>,
  \<^item> \<^verbatim>\<open>rawLocation[locationMethodName](formattedValue)\<close>,
  \<^item> \<^verbatim>\<open>rawLocation.href = formattedValue\<close>.
\<close>

datatype effect =
  History string string
| Reload "bool option"
| PurePopStateEvent
| RawLocationCall string string_or_URL
| RawHrefSet string_or_URL

record state =
  microLocation :: MicroLocation
  effects :: "effect list"

definition emit :: "effect \<Rightarrow> state \<Rightarrow> state" where
  "emit e s = s\<lparr>effects := effects s @ [e]\<rparr>"

text \<open>
  \<^verbatim>\<open>rawWindow.history[methodName](null, '', path)\<close> and \<^verbatim>\<open>rawLocation.reload()\<close>
  are calls of the browser; the model records them and goes on, as the code after
  them does.
\<close>

definition rawHistory :: "string \<Rightarrow> string \<Rightarrow> state \<Rightarrow> state" where
  "rawHistory methodName path = emit (History methodName path)"

definition rawReload :: "state \<Rightarrow> state" where
  "rawReload = emit (Reload None)"

text \<open>
  Modelled from the spec: \<^verbatim>\<open>dispatchPurePopStateEvent\<close> is imported from ./event, which
  is not part of the source at hand. The spec describes it as firing a route-change
  notification observable by listeners, without altering the real URL or the history
  stack and without a real navigation or reload. The model records the notification;
  what listeners do on it is not part of this file.
\<close>

definition dispatchPurePopStateEvent :: "state \<Rightarrow> state" where
  "dispatchPurePopStateEvent = emit PurePopStateEvent"

subsection \<open>createMicroLocation\<close>

definition createMicroLocation :: "env \<Rightarrow> error + MicroLocation" where
  "createMicroLocation E =
     (case createURL E (url E) None of
        None \<Rightarrow> Inl TypeError
      | Some u \<Rightarrow>
          Inr (URL.extend u (MicroLocation.fields
            \<lparr>href = href u, pathname = pathname u, search = search u, hash = hash u\<rparr>)))"

text \<open>Lines 34-69.\<close>

definition commonHandle ::
  "env \<Rightarrow> string_or_URL \<Rightarrow> string \<Rightarrow> state \<Rightarrow> error + (string_or_URL option \<times> state)" where
  "commonHandle E value methodName s =
     (case createURL E (toString value) (Some (url E)) of
        None \<Rightarrow> Inl TypeError
      | Some targetLocation \<Rightarrow>
          if origin targetLocation = origin (microLocation s) then
            let setMicroPathResult = setMicroPathToURL E (appName E) targetLocation in
            if pathname targetLocation = pathname (shadowLocation (microLocation s)) \<and>
               search targetLocation = search (shadowLocation (microLocation s))
            then
              let s1 = (if hash targetLocation \<noteq> hash (shadowLocation (microLocation s))
                        then rawHistory methodName (fullPath setMicroPathResult) s else s);
                  s2 = (if hash targetLocation \<noteq> [] then dispatchPurePopStateEvent s1
                        else rawReload s1)
              in Inr (None, s2)
            else if attach2Hash setMicroPathResult then
              Inr (None, rawReload (rawHistory methodName (fullPath setMicroPathResult) s))
            else Inr (Some (String (fullPath setMicroPathResult)), s)
          else Inr (Some value, s))"

text \<open>Lines 71-82.\<close>

definition createLocationMethod :: "env \<Rightarrow> string \<Rightarrow> string_or_URL \<Rightarrow> state \<Rightarrow> error + state" where
  "createLocationMethod E locationMethodName value s =
     (case commonHandle E value
             (if locationMethodName = ''assign'' then ''pushState'' else ''replaceState'') s of
        Inl e \<Rightarrow> Inl e
      | Inr (formattedValue, s') \<Rightarrow>
          Inr (whenTruthy formattedValue
                 (\<lambda>v. emit (RawLocationCall locationMethodName v)) s'))"

definition assign :: "env \<Rightarrow> string_or_URL \<Rightarrow> state \<Rightarrow> error + state" where
  "assign E = createLocationMethod E ''assign''"

definition replace :: "env \<Rightarrow> string_or_URL \<Rightarrow> state \<Rightarrow> error + state" where
  "replace E = createLocationMethod E ''replace''"

definition reload :: "bool option \<Rightarrow> state \<Rightarrow> state" where
  "reload forcedReload = emit (Reload forcedReload)"

subsection \<open>The accessors of href, pathname, search and hash (lines 95-157)\<close>

text \<open>
  \<^verbatim>\<open>s.replace(/^c+/, c)\<close> for a single character \<^verbatim>\<open>c\<close>: a non-empty run of
  \<^verbatim>\<open>c\<close> at the start of the string is replaced by one \<^verbatim>\<open>c\<close>; a string that does
  not start with \<^verbatim>\<open>c\<close> is returned as it is.
\<close>

definition replaceLeading :: "char \<Rightarrow> string \<Rightarrow> string" where
  "replaceLeading c s =
     (if takeWhile (\<lambda>x. x = c) s = [] then s else c # dropWhile (\<lambda>x. x = c) s)"

definition href_get :: "state \<Rightarrow> string" where
  "href_get s = href (shadowLocation (microLocation s))"

definition href_set :: "env \<Rightarrow> string \<Rightarrow> state \<Rightarrow> error + state" where
  "href_set E value s =
     (case commonHandle E (String value) ''pushState'' s of
        Inl e \<Rightarrow> Inl e
      | Inr (formattedValue, s') \<Rightarrow> Inr (whenTruthy formattedValue (\<lambda>v. emit (RawHrefSet v)) s'))"

definition pathname_get :: "state \<Rightarrow> string" where
  "pathname_get s = pathname (shadowLocation (microLocation s))"

definition pathname_set :: "env \<Rightarrow> string \<Rightarrow> state \<Rightarrow> error + state" where
  "pathname_set E value s =
     (let targetPath = replaceLeading CHR ''/'' (CHR ''/'' # value)
                         @ search (shadowLocation (microLocation s))
                         @ hash (shadowLocation (microLocation s))
      in case createURL E targetPath (Some (url E)) of
           None \<Rightarrow> Inl TypeError
         | Some targetLocation \<Rightarrow>
             if pathname targetLocation = pathname (shadowLocation (microLocation s)) \<and>
                hash (shadowLocation (microLocation s)) \<noteq> []
             then Inr (dispatchPurePopStateEvent s)
             else
               let methodName =
                     (if pathname targetLocation = pathname (shadowLocation (microLocation s))
                      then ''replaceState'' else ''pushState'')
               in Inr (rawReload (rawHistory methodName
                         (fullPath (setMicroPathToURL E (appName E) targetLocation)) s)))"

definition search_get :: "state \<Rightarrow> string" where
  "search_get s = search (shadowLocation (microLocation s))"

definition search_set :: "env \<Rightarrow> string \<Rightarrow> state \<Rightarrow> error + state" where
  "search_set E value s =
     (let targetPath = pathname (shadowLocation (microLocation s))
                         @ replaceLeading CHR ''?'' (CHR ''?'' # value)
                         @ hash (shadowLocation (microLocation s))
      in case createURL E targetPath (Some (url E)) of
           None \<Rightarrow> Inl TypeError
         | Some targetLocation \<Rightarrow>
             if search targetLocation = search (shadowLocation (microLocation s)) \<and>
                hash (shadowLocation (microLocation s)) \<noteq> []
             then Inr (dispatchPurePopStateEvent s)
             else
               let methodName =
                     (if search targetLocation = search (shadowLocation (microLocation s))
                      then ''replaceState'' else ''pushState'')
               in Inr (rawReload (rawHistory methodName
                         (fullPath (setMicroPathToURL E (appName E) targetLocation)) s)))"

definition hash_get :: "state \<Rightarrow> string" where
  "hash_get s = hash (shadowLocation (microLocation s))"

definition hash_set :: "env \<Rightarrow> string \<Rightarrow> state \<Rightarrow> error + state" where
  "hash_set E value s =
     (let targetPath = pathname (shadowLocation (microLocation s))
                         @ search (shadowLocation (microLocation s))
                         @ replaceLeading CHR ''#'' (CHR ''#'' # value)
      in case createURL E targetPath (Some (url E)) of
           None \<Rightarrow> Inl TypeError
         | Some targetLocation \<Rightarrow>
             if hash targetLocation \<noteq> hash (shadowLocation (microLocation s))
             then Inr (dispatchPurePopStateEvent (rawHistory ''pushState''
                         (fullPath (setMicroPathToURL E (appName E) targetLocation)) s))
             else Inr s)"

subsection \<open>updateLocation (lines 162-189)\<close>











subsection \<open>A small environment for worked scenarios\<close>

text \<open>
  A resolver for \<^verbatim>\<open>https://host/path?query#fragment\<close> and for absolute paths against
  such a base, and two codecs: one that stores the micro app's path in the query of the
  host URL, and one for a host in hash-routing mode.
\<close>

fun stripPrefix :: "string \<Rightarrow> string \<Rightarrow> string option" where
  "stripPrefix [] s = Some s"
| "stripPrefix (p # ps) [] = None"
| "stripPrefix (p # ps) (c # cs) = (if p = c then stripPrefix ps cs else None)"

definition demo_parse :: "string \<Rightarrow> string \<Rightarrow> URL" where
  "demo_parse h rest =
     (let beforeHash = takeWhile (\<lambda>c. c \<noteq> CHR ''#'') rest;
          fragment = dropWhile (\<lambda>c. c \<noteq> CHR ''#'') rest;
          p = takeWhile (\<lambda>c. c \<noteq> CHR ''?'') beforeHash;
          q = dropWhile (\<lambda>c. c \<noteq> CHR ''?'') beforeHash;
          p' = (if p = [] then ''/'' else p);
          q' = (if q = ''?'' then [] else q);
          f' = (if fragment = ''#'' then [] else fragment)
      in \<lparr>href = ''https://'' @ h @ p' @ q' @ f', pathname = p', search = q', hash = f',
          origin = ''https://'' @ h, host = h, hostname = h, port = [],
          protocol = ''https:'', password = []\<rparr>)"

definition demo_createURL :: "string \<Rightarrow> string option \<Rightarrow> URL option" where
  "demo_createURL path base =
     (case stripPrefix ''https://'' path of
        Some r \<Rightarrow>
          Some (demo_parse (takeWhile (\<lambda>c. c \<noteq> CHR ''/'') r) (dropWhile (\<lambda>c. c \<noteq> CHR ''/'') r))
      | None \<Rightarrow>
          (case (stripPrefix ''/'' path, base) of
             (Some _, Some b) \<Rightarrow>
               (case stripPrefix ''https://'' b of
                  Some r \<Rightarrow> Some (demo_parse (takeWhile (\<lambda>c. c \<noteq> CHR ''/'') r) path)
                | None \<Rightarrow> None)
           | _ \<Rightarrow> None))"

definition demo_codec :: "string \<Rightarrow> URL \<Rightarrow> setMicroPathResult" where
  "demo_codec name u =
     \<lparr>fullPath = ''/?'' @ name @ ''='' @ pathname u @ search u @ hash u, attach2Hash = False\<rparr>"

definition demo_hash_codec :: "string \<Rightarrow> URL \<Rightarrow> setMicroPathResult" where
  "demo_hash_codec name u =
     \<lparr>fullPath = ''/#/?'' @ name @ ''='' @ pathname u @ search u @ hash u, attach2Hash = True\<rparr>"

definition demo_env :: env where
  "demo_env = \<lparr>appName = ''app'', url = ''https://app.example/'',
                createURL = demo_createURL, setMicroPathToURL = demo_codec\<rparr>"

definition demo_hash_env :: env where
  "demo_hash_env = demo_env\<lparr>setMicroPathToURL := demo_hash_codec\<rparr>"



text \<open>The state of a micro app whose shadow location is \<^verbatim>\<open>path\<close>, before any effect.\<close>

definition demo_state :: "string \<Rightarrow> state" where
  "demo_state path =
     (let u = demo_parse ''app.example'' path
      in \<lparr>microLocation = URL.extend (demo_parse ''app.example'' ''/'')
             (MicroLocation.fields
                \<lparr>href = href u, pathname = pathname u, search = search u, hash = hash u\<rparr>),
          effects = []\<rparr>)"

subsection \<open>Classes of effects\<close>

text \<open>A history commit is a call of pushState or replaceState.\<close>

fun isCommit :: "effect \<Rightarrow> bool" where
  "isCommit (History methodName path) = True"
| "isCommit e = False"

text \<open>The side effects that follow a commit: a reload or a synthetic notification.\<close>

fun isSideEffect :: "effect \<Rightarrow> bool" where
  "isSideEffect (Reload forcedReload) = True"
| "isSideEffect PurePopStateEvent = True"
| "isSideEffect e = False"

section \<open>Properties\<close>

lemmas raw_defs = emit_def rawHistory_def rawReload_def dispatchPurePopStateEvent_def

lemmas caller_defs = assign_def replace_def createLocationMethod_def href_set_def whenTruthy_def

lemmas demo_defs = demo_env_def demo_hash_env_def demo_state_def demo_createURL_def
  demo_parse_def demo_codec_def demo_hash_codec_def URL.extend_def MicroLocation.fields_def Let_def

lemma createMicroLocation_demo:
  "createMicroLocation demo_env = Inr (microLocation (demo_state ''/''))"
  by (simp add: createMicroLocation_def demo_defs)

lemma replaceLeading_Cons: "replaceLeading c (c # v) = c # dropWhile (\<lambda>x. x = c) v"
  by (simp add: replaceLeading_def)

lemma dropWhile_replicate_append:
  "dropWhile (\<lambda>x. x = c) (replicate n c @ v) = dropWhile (\<lambda>x. x = c) v"
  by (induction n) simp_all

subsection \<open>What an operation can do to the state\<close>

text \<open>
  Each operation leaves the facade as it is and appends to the effects one of five
  shapes, with at most one commit, which then comes first.
\<close>

lemma commonHandle_effects:
  assumes "commonHandle E value methodName s = Inr (r, s')"
  shows "microLocation s' = microLocation s \<and>
         (\<exists>evs p f. effects s' = effects s @ evs \<and>
            (evs = [] \<or> evs = [PurePopStateEvent] \<or> evs = [Reload f] \<or>
             evs = [History methodName p, PurePopStateEvent] \<or>
             evs = [History methodName p, Reload f]))"
  using assms
  by (auto simp add: commonHandle_def raw_defs Let_def split: option.splits if_splits)

lemma pathname_set_effects:
  assumes "pathname_set E v s = Inr s'"
  shows "microLocation s' = microLocation s \<and>
         (\<exists>evs m p f. effects s' = effects s @ evs \<and>
            (evs = [] \<or> evs = [PurePopStateEvent] \<or> evs = [Reload f] \<or>
             evs = [History m p, PurePopStateEvent] \<or>
             evs = [History m p, Reload f]))"
  using assms
  by (auto simp add: pathname_set_def raw_defs Let_def split: option.splits if_splits)

lemma search_set_effects:
  assumes "search_set E v s = Inr s'"
  shows "microLocation s' = microLocation s \<and>
         (\<exists>evs m p f. effects s' = effects s @ evs \<and>
            (evs = [] \<or> evs = [PurePopStateEvent] \<or> evs = [Reload f] \<or>
             evs = [History m p, PurePopStateEvent] \<or>
             evs = [History m p, Reload f]))"
  using assms
  by (auto simp add: search_set_def raw_defs Let_def split: option.splits if_splits)

lemma hash_set_effects:
  assumes "hash_set E v s = Inr s'"
  shows "microLocation s' = microLocation s \<and>
         (\<exists>evs m p f. effects s' = effects s @ evs \<and>
            (evs = [] \<or> evs = [PurePopStateEvent] \<or> evs = [Reload f] \<or>
             evs = [History m p, PurePopStateEvent] \<or>
             evs = [History m p, Reload f]))"
  using assms
  by (auto simp add: hash_set_def raw_defs Let_def split: option.splits if_splits)

lemma whenTruthy_emit_microLocation:
  "microLocation (whenTruthy r (\<lambda>v. emit (f v)) s) = microLocation s"
  by (cases r) (simp_all add: whenTruthy_def emit_def)

lemma createLocationMethod_microLocation:
  assumes "createLocationMethod E n value s = Inr s'"
  shows "microLocation s' = microLocation s"
  using assms commonHandle_effects
  by (fastforce simp add: createLocationMethod_def whenTruthy_emit_microLocation
        split: sum.splits prod.splits)

lemma href_set_microLocation:
  assumes "href_set E v s = Inr s'"
  shows "microLocation s' = microLocation s"
  using assms commonHandle_effects
  by (fastforce simp add: href_set_def whenTruthy_emit_microLocation
        split: sum.splits prod.splits)

lemma commit_first_cases:
  assumes "evs = [] \<or> evs = [PurePopStateEvent] \<or> evs = [Reload f] \<or>
           evs = [History m p, PurePopStateEvent] \<or> evs = [History m p, Reload f]"
  shows "\<forall>i j. i < length evs \<and> j < length evs \<and>
                isCommit (evs ! i) \<and> isSideEffect (evs ! j) \<longrightarrow> i < j"
  using assms by (auto simp add: less_Suc_eq nth_Cons')





subsection \<open>The common handler\<close>

text \<open>
  Claim C1. A target whose resolved origin differs from the origin of the micro app:
  \<^verbatim>\<open>commonHandle\<close> returns the value it was given, and the state is the one it started
  from, so it has committed nothing to the history, has not reloaded and has dispatched
  no notification.
\<close>

theorem commonHandle_cross_origin:
  assumes "createURL E (toString value) (Some (url E)) = Some targetLocation"
    and "origin targetLocation \<noteq> origin (microLocation s)"
  shows "commonHandle E value methodName s = Inr (Some value, s)"
  using assms by (simp add: commonHandle_def)

theorem commonHandle_cross_origin_witness:
  "createURL demo_env (toString (String ''https://other-origin.example/p''))
       (Some (url demo_env)) =
     Some (demo_parse ''other-origin.example'' ''/p'') \<and>
   origin (demo_parse ''other-origin.example'' ''/p'') \<noteq>
     origin (microLocation (demo_state ''/x'')) \<and>
   commonHandle demo_env (String ''https://other-origin.example/p'') ''pushState''
       (demo_state ''/x'') =
     Inr (Some (String ''https://other-origin.example/p''), demo_state ''/x'')"
proof -
  have r: "createURL demo_env (toString (String ''https://other-origin.example/p''))
       (Some (url demo_env)) = Some (demo_parse ''other-origin.example'' ''/p'')"
    by (simp add: demo_defs)
  have o: "origin (demo_parse ''other-origin.example'' ''/p'') \<noteq>
       origin (microLocation (demo_state ''/x''))"
    by (simp add: demo_defs)
  show ?thesis using r o commonHandle_cross_origin [OF r o] by simp
qed

text \<open>
  Claim C2. A same-origin target with the pathname and the search of the shadow and a
  non-empty hash that differs from the shadow's: \<^verbatim>\<open>commonHandle\<close> appends exactly the
  commit of the encoded full path under the requested method and then one notification,
  and returns \<^verbatim>\<open>undefined\<close>. Through \<^verbatim>\<open>assign\<close> and the href setter the method is
  pushState, through \<^verbatim>\<open>replace\<close> it is replaceState, and none of the three callers
  navigates further.
\<close>

theorem commonHandle_hash_changed:
  assumes "createURL E (toString value) (Some (url E)) = Some targetLocation"
    and "origin targetLocation = origin (microLocation s)"
    and "pathname targetLocation = pathname (shadowLocation (microLocation s))"
    and "search targetLocation = search (shadowLocation (microLocation s))"
    and "hash targetLocation \<noteq> []"
    and "hash targetLocation \<noteq> hash (shadowLocation (microLocation s))"
  shows "commonHandle E value methodName s =
           Inr (None, s\<lparr>effects := effects s @
             [History methodName (fullPath (setMicroPathToURL E (appName E) targetLocation)),
              PurePopStateEvent]\<rparr>) \<and>
         assign E value s =
           Inr (s\<lparr>effects := effects s @
             [History ''pushState'' (fullPath (setMicroPathToURL E (appName E) targetLocation)),
              PurePopStateEvent]\<rparr>) \<and>
         replace E value s =
           Inr (s\<lparr>effects := effects s @
             [History ''replaceState'' (fullPath (setMicroPathToURL E (appName E) targetLocation)),
              PurePopStateEvent]\<rparr>) \<and>
         (\<forall>v. value = String v \<longrightarrow> href_set E v s =
           Inr (s\<lparr>effects := effects s @
             [History ''pushState'' (fullPath (setMicroPathToURL E (appName E) targetLocation)),
              PurePopStateEvent]\<rparr>))"
proof -
  have h: "commonHandle E value m s =
           Inr (None, s\<lparr>effects := effects s @
             [History m (fullPath (setMicroPathToURL E (appName E) targetLocation)),
              PurePopStateEvent]\<rparr>)" for m
    using assms by (simp add: commonHandle_def raw_defs)
  show ?thesis
    using h by (auto simp add: caller_defs)
qed

theorem commonHandle_hash_changed_witness:
  "createURL demo_env (toString (String ''/x#y'')) (Some (url demo_env)) =
     Some (demo_parse ''app.example'' ''/x#y'') \<and>
   origin (demo_parse ''app.example'' ''/x#y'') = origin (microLocation (demo_state ''/x#z'')) \<and>
   pathname (demo_parse ''app.example'' ''/x#y'') =
     pathname (shadowLocation (microLocation (demo_state ''/x#z''))) \<and>
   search (demo_parse ''app.example'' ''/x#y'') =
     search (shadowLocation (microLocation (demo_state ''/x#z''))) \<and>
   hash (demo_parse ''app.example'' ''/x#y'') \<noteq> [] \<and>
   hash (demo_parse ''app.example'' ''/x#y'') \<noteq>
     hash (shadowLocation (microLocation (demo_state ''/x#z''))) \<and>
   commonHandle demo_env (String ''/x#y'') ''replaceState'' (demo_state ''/x#z'') =
     Inr (None, (demo_state ''/x#z'')
            \<lparr>effects := [History ''replaceState'' ''/?app=/x#y'', PurePopStateEvent]\<rparr>) \<and>
   assign demo_env (String ''/x#y'') (demo_state ''/x#z'') =
     Inr ((demo_state ''/x#z'')
            \<lparr>effects := [History ''pushState'' ''/?app=/x#y'', PurePopStateEvent]\<rparr>) \<and>
   replace demo_env (String ''/x#y'') (demo_state ''/x#z'') =
     Inr ((demo_state ''/x#z'')
            \<lparr>effects := [History ''replaceState'' ''/?app=/x#y'', PurePopStateEvent]\<rparr>) \<and>
   href_set demo_env ''/x#y'' (demo_state ''/x#z'') =
     Inr ((demo_state ''/x#z'')
            \<lparr>effects := [History ''pushState'' ''/?app=/x#y'', PurePopStateEvent]\<rparr>)"
proof -
  let ?t = "demo_parse ''app.example'' ''/x#y''"
  let ?s = "demo_state ''/x#z''"
  have r: "createURL demo_env (toString (String ''/x#y'')) (Some (url demo_env)) = Some ?t"
    by (simp add: demo_defs)
  have o: "origin ?t = origin (microLocation ?s)"
    by (simp add: demo_defs)
  have p: "pathname ?t = pathname (shadowLocation (microLocation ?s))"
    by (simp add: demo_defs)
  have q: "search ?t = search (shadowLocation (microLocation ?s))"
    by (simp add: demo_defs)
  have n: "hash ?t \<noteq> []"
    by (simp add: demo_defs)
  have d: "hash ?t \<noteq> hash (shadowLocation (microLocation ?s))"
    by (simp add: demo_defs)
  have f: "fullPath (setMicroPathToURL demo_env (appName demo_env) ?t) = ''/?app=/x#y''"
    by (simp add: demo_defs)
  have e: "effects ?s = []"
    by (simp add: demo_defs)
  from commonHandle_hash_changed [OF r o p q n d, of "''replaceState''"]
  show ?thesis
    unfolding f e using r o p q n d by simp
qed

text \<open>
  Claim C3. A same-origin target with the pathname and the search of the shadow and an
  empty hash, while the hash of the shadow is not empty: \<^verbatim>\<open>commonHandle\<close> appends the
  commit of the encoded full path and then exactly one reload, dispatches no
  notification, and returns \<^verbatim>\<open>undefined\<close>.
\<close>

theorem commonHandle_hash_cleared:
  assumes "createURL E (toString value) (Some (url E)) = Some targetLocation"
    and "origin targetLocation = origin (microLocation s)"
    and "pathname targetLocation = pathname (shadowLocation (microLocation s))"
    and "search targetLocation = search (shadowLocation (microLocation s))"
    and "hash targetLocation = []"
    and "hash (shadowLocation (microLocation s)) \<noteq> []"
  shows "commonHandle E value methodName s =
           Inr (None, s\<lparr>effects := effects s @
             [History methodName (fullPath (setMicroPathToURL E (appName E) targetLocation)),
              Reload None]\<rparr>)"
  using assms by (simp add: commonHandle_def raw_defs)

theorem commonHandle_hash_cleared_witness:
  "createURL demo_env (toString (String ''/x'')) (Some (url demo_env)) =
     Some (demo_parse ''app.example'' ''/x'') \<and>
   origin (demo_parse ''app.example'' ''/x'') = origin (microLocation (demo_state ''/x#z'')) \<and>
   pathname (demo_parse ''app.example'' ''/x'') =
     pathname (shadowLocation (microLocation (demo_state ''/x#z''))) \<and>
   search (demo_parse ''app.example'' ''/x'') =
     search (shadowLocation (microLocation (demo_state ''/x#z''))) \<and>
   hash (demo_parse ''app.example'' ''/x'') = [] \<and>
   hash (shadowLocation (microLocation (demo_state ''/x#z''))) \<noteq> [] \<and>
   commonHandle demo_env (String ''/x'') ''pushState'' (demo_state ''/x#z'') =
     Inr (None, (demo_state ''/x#z'')
            \<lparr>effects := [History ''pushState'' ''/?app=/x'', Reload None]\<rparr>)"
proof -
  let ?t = "demo_parse ''app.example'' ''/x''"
  let ?s = "demo_state ''/x#z''"
  have r: "createURL demo_env (toString (String ''/x'')) (Some (url demo_env)) = Some ?t"
    by (simp add: demo_defs)
  have o: "origin ?t = origin (microLocation ?s)"
    by (simp add: demo_defs)
  have p: "pathname ?t = pathname (shadowLocation (microLocation ?s))"
    by (simp add: demo_defs)
  have q: "search ?t = search (shadowLocation (microLocation ?s))"
    by (simp add: demo_defs)
  have n: "hash ?t = []"
    by (simp add: demo_defs)
  have d: "hash (shadowLocation (microLocation ?s)) \<noteq> []"
    by (simp add: demo_defs)
  have f: "fullPath (setMicroPathToURL demo_env (appName demo_env) ?t) = ''/?app=/x''"
    by (simp add: demo_defs)
  have e: "effects ?s = []"
    by (simp add: demo_defs)
  from commonHandle_hash_cleared [OF r o p q n d, of "''pushState''"]
  show ?thesis
    unfolding f e using r o p q n d by simp
qed

text \<open>
  Claim C4. A same-origin target whose pathname or search differs from the shadow's:
  when the codec reports \<^verbatim>\<open>attach2Hash\<close>, \<^verbatim>\<open>commonHandle\<close> appends the commit of the
  full path under the requested method and then a reload, and returns \<^verbatim>\<open>undefined\<close>;
  otherwise it returns the encoded full path and leaves the state as it was.
\<close>

theorem commonHandle_path_changed:
  assumes "createURL E (toString value) (Some (url E)) = Some targetLocation"
    and "origin targetLocation = origin (microLocation s)"
    and "pathname targetLocation \<noteq> pathname (shadowLocation (microLocation s)) \<or>
         search targetLocation \<noteq> search (shadowLocation (microLocation s))"
  shows "commonHandle E value methodName s =
           (if attach2Hash (setMicroPathToURL E (appName E) targetLocation)
            then Inr (None, s\<lparr>effects := effects s @
                   [History methodName (fullPath (setMicroPathToURL E (appName E) targetLocation)),
                    Reload None]\<rparr>)
            else Inr (Some (String (fullPath (setMicroPathToURL E (appName E) targetLocation))), s))"
  using assms by (auto simp add: commonHandle_def raw_defs)

theorem commonHandle_path_changed_witness:
  "createURL demo_hash_env (toString (String ''/newpath'')) (Some (url demo_hash_env)) =
     Some (demo_parse ''app.example'' ''/newpath'') \<and>
   origin (demo_parse ''app.example'' ''/newpath'') = origin (microLocation (demo_state ''/x'')) \<and>
   pathname (demo_parse ''app.example'' ''/newpath'') \<noteq>
     pathname (shadowLocation (microLocation (demo_state ''/x''))) \<and>
   attach2Hash (setMicroPathToURL demo_hash_env (appName demo_hash_env)
     (demo_parse ''app.example'' ''/newpath'')) \<and>
   commonHandle demo_hash_env (String ''/newpath'') ''replaceState'' (demo_state ''/x'') =
     Inr (None, (demo_state ''/x'')
            \<lparr>effects := [History ''replaceState'' ''/#/?app=/newpath'', Reload None]\<rparr>)"
proof -
  let ?t = "demo_parse ''app.example'' ''/newpath''"
  let ?s = "demo_state ''/x''"
  have r: "createURL demo_hash_env (toString (String ''/newpath''))
             (Some (url demo_hash_env)) = Some ?t"
    by (simp add: demo_defs)
  have o: "origin ?t = origin (microLocation ?s)"
    by (simp add: demo_defs)
  have p: "pathname ?t \<noteq> pathname (shadowLocation (microLocation ?s))"
    by (simp add: demo_defs)
  then have pq: "pathname ?t \<noteq> pathname (shadowLocation (microLocation ?s)) \<or>
                 search ?t \<noteq> search (shadowLocation (microLocation ?s))"
    by (rule disjI1)
  have a: "attach2Hash (setMicroPathToURL demo_hash_env (appName demo_hash_env) ?t)"
    by (simp add: demo_defs)
  have f: "fullPath (setMicroPathToURL demo_hash_env (appName demo_hash_env) ?t) =
             ''/#/?app=/newpath''"
    by (simp add: demo_defs)
  have e: "effects ?s = []"
    by (simp add: demo_defs)
  from commonHandle_path_changed [OF r o pq, of "''replaceState''"]
  show ?thesis
    unfolding f e using r o p a by simp
qed

subsection \<open>Order of the effects\<close>

text \<open>
  Claim C5. In an execution of \<^verbatim>\<open>commonHandle\<close> or of the pathname, search or hash
  setter, every history commit among the effects it appends comes before every reload
  and every synthetic notification among them.
\<close>

theorem commit_before_side_effect:
  assumes "commonHandle E value methodName s = Inr (r, s') \<or>
           pathname_set E v s = Inr s' \<or>
           search_set E v s = Inr s' \<or>
           hash_set E v s = Inr s'"
  shows "\<exists>evs. effects s' = effects s @ evs \<and>
           (\<forall>i j. i < length evs \<and> j < length evs \<and>
                  isCommit (evs ! i) \<and> isSideEffect (evs ! j) \<longrightarrow> i < j)"
proof -
  from assms obtain evs m p f where e: "effects s' = effects s @ evs"
    and c: "evs = [] \<or> evs = [PurePopStateEvent] \<or> evs = [Reload f] \<or>
            evs = [History m p, PurePopStateEvent] \<or> evs = [History m p, Reload f]"
  proof (elim disjE)
    assume "commonHandle E value methodName s = Inr (r, s')"
    from commonHandle_effects [OF this] show ?thesis using that by blast
  next
    assume "pathname_set E v s = Inr s'"
    from pathname_set_effects [OF this] show ?thesis using that by blast
  next
    assume "search_set E v s = Inr s'"
    from search_set_effects [OF this] show ?thesis using that by blast
  next
    assume "hash_set E v s = Inr s'"
    from hash_set_effects [OF this] show ?thesis using that by blast
  qed
  from commit_first_cases [OF c] e show ?thesis by blast
qed

theorem commit_before_side_effect_witness:
  "hash_set demo_env ''y'' (demo_state ''/x'') =
     Inr ((demo_state ''/x'')
            \<lparr>effects := [History ''pushState'' ''/?app=/x#y'', PurePopStateEvent]\<rparr>) \<and>
   (\<exists>evs. [History ''pushState'' ''/?app=/x#y'', PurePopStateEvent] =
             effects (demo_state ''/x'') @ evs \<and>
           (\<forall>i j. i < length evs \<and> j < length evs \<and>
                  isCommit (evs ! i) \<and> isSideEffect (evs ! j) \<longrightarrow> i < j))"
proof -
  let ?s' = "(demo_state ''/x'')
               \<lparr>effects := [History ''pushState'' ''/?app=/x#y'', PurePopStateEvent]\<rparr>"
  have h: "hash_set demo_env ''y'' (demo_state ''/x'') = Inr ?s'"
    by (simp add: hash_set_def replaceLeading_def raw_defs demo_defs)
  have "commonHandle demo_env (String []) [] (demo_state ''/x'') = Inr (None, ?s') \<or>
        pathname_set demo_env ''y'' (demo_state ''/x'') = Inr ?s' \<or>
        search_set demo_env ''y'' (demo_state ''/x'') = Inr ?s' \<or>
        hash_set demo_env ''y'' (demo_state ''/x'') = Inr ?s'"
    using h by blast
  from commit_before_side_effect [OF this] h show ?thesis by simp
qed

subsection \<open>The setters\<close>

text \<open>
  Claim C6. A write of \<^verbatim>\<open>value\<close> to hash resolves the shadow's pathname and search
  followed by \<^verbatim>\<open>#\<close> and the value without its leading \<^verbatim>\<open>#\<close> characters. If the
  resolved hash differs from the shadow's, the setter appends a pushState commit of the
  encoded path and then one notification, and no reload; if it is the same, the setter
  does nothing.
\<close>

theorem hash_set_spec:
  assumes "createURL E (pathname (shadowLocation (microLocation s)) @
                        search (shadowLocation (microLocation s)) @
                        CHR ''#'' # dropWhile (\<lambda>c. c = CHR ''#'') value) (Some (url E)) =
             Some targetLocation"
  shows "hash_set E value s =
           (if hash targetLocation \<noteq> hash (shadowLocation (microLocation s))
            then Inr (s\<lparr>effects := effects s @
                   [History ''pushState'' (fullPath (setMicroPathToURL E (appName E) targetLocation)),
                    PurePopStateEvent]\<rparr>)
            else Inr s)"
  using assms by (simp add: hash_set_def replaceLeading_Cons raw_defs)

theorem hash_set_spec_witness:
  "createURL demo_env (pathname (shadowLocation (microLocation (demo_state ''/x''))) @
                       search (shadowLocation (microLocation (demo_state ''/x''))) @
                       CHR ''#'' # dropWhile (\<lambda>c. c = CHR ''#'') ''y'') (Some (url demo_env)) =
     Some (demo_parse ''app.example'' ''/x#y'') \<and>
   hash_set demo_env ''y'' (demo_state ''/x'') =
     Inr ((demo_state ''/x'')
            \<lparr>effects := [History ''pushState'' ''/?app=/x#y'', PurePopStateEvent]\<rparr>) \<and>
   hash_set demo_env ''y'' (demo_state ''/x#y'') = Inr (demo_state ''/x#y'')"
proof -
  let ?t = "demo_parse ''app.example'' ''/x#y''"
  have r: "createURL demo_env (pathname (shadowLocation (microLocation (demo_state ''/x''))) @
                       search (shadowLocation (microLocation (demo_state ''/x''))) @
                       CHR ''#'' # dropWhile (\<lambda>c. c = CHR ''#'') ''y'') (Some (url demo_env)) =
             Some ?t"
    by (simp add: demo_defs)
  have r': "createURL demo_env (pathname (shadowLocation (microLocation (demo_state ''/x#y''))) @
                       search (shadowLocation (microLocation (demo_state ''/x#y''))) @
                       CHR ''#'' # dropWhile (\<lambda>c. c = CHR ''#'') ''y'') (Some (url demo_env)) =
             Some ?t"
    by (simp add: demo_defs)
  have d: "hash ?t \<noteq> hash (shadowLocation (microLocation (demo_state ''/x'')))"
    by (simp add: demo_defs)
  have d': "hash ?t = hash (shadowLocation (microLocation (demo_state ''/x#y'')))"
    by (simp add: demo_defs)
  have f: "fullPath (setMicroPathToURL demo_env (appName demo_env) ?t) = ''/?app=/x#y''"
    by (simp add: demo_defs)
  have e: "effects (demo_state ''/x'') = []"
    by (simp add: demo_defs)
  from hash_set_spec [OF r] hash_set_spec [OF r']
  show ?thesis
    unfolding f e using r d d' by simp
qed

text \<open>
  Claim C7. A write of \<^verbatim>\<open>value\<close> to pathname resolves \<^verbatim>\<open>/\<close> and the value without
  its leading slashes, followed by the shadow's search and hash. If the resolved pathname
  is the shadow's and the shadow's hash is not empty, the setter appends one notification
  and nothing else. Otherwise it appends a commit of the encoded full path, under
  replaceState when the resolved pathname is the shadow's and under pushState when it
  differs, and then a reload.
\<close>

theorem pathname_set_spec:
  assumes "createURL E (CHR ''/'' # dropWhile (\<lambda>c. c = CHR ''/'') value @
                        search (shadowLocation (microLocation s)) @
                        hash (shadowLocation (microLocation s))) (Some (url E)) =
             Some targetLocation"
  shows "pathname_set E value s =
           (if pathname targetLocation = pathname (shadowLocation (microLocation s)) \<and>
               hash (shadowLocation (microLocation s)) \<noteq> []
            then Inr (s\<lparr>effects := effects s @ [PurePopStateEvent]\<rparr>)
            else Inr (s\<lparr>effects := effects s @
                   [History (if pathname targetLocation = pathname (shadowLocation (microLocation s))
                             then ''replaceState'' else ''pushState'')
                      (fullPath (setMicroPathToURL E (appName E) targetLocation)),
                    Reload None]\<rparr>))"
  using assms by (simp add: pathname_set_def replaceLeading_Cons raw_defs)

theorem pathname_set_spec_witness:
  "createURL demo_env (CHR ''/'' # dropWhile (\<lambda>c. c = CHR ''/'') ''/z'' @
                       search (shadowLocation (microLocation (demo_state ''/x#y''))) @
                       hash (shadowLocation (microLocation (demo_state ''/x#y''))))
       (Some (url demo_env)) =
     Some (demo_parse ''app.example'' ''/z#y'') \<and>
   pathname_set demo_env ''/z'' (demo_state ''/x#y'') =
     Inr ((demo_state ''/x#y'')
            \<lparr>effects := [History ''pushState'' ''/?app=/z#y'', Reload None]\<rparr>) \<and>
   pathname_set demo_env ''/x'' (demo_state ''/x#y'') =
     Inr ((demo_state ''/x#y'')\<lparr>effects := [PurePopStateEvent]\<rparr>) \<and>
   pathname_set demo_env ''/x'' (demo_state ''/x'') =
     Inr ((demo_state ''/x'')
            \<lparr>effects := [History ''replaceState'' ''/?app=/x'', Reload None]\<rparr>)"
proof -
  let ?s = "demo_state ''/x#y''"
  have r: "createURL demo_env (CHR ''/'' # dropWhile (\<lambda>c. c = CHR ''/'') ''/z'' @
                       search (shadowLocation (microLocation ?s)) @
                       hash (shadowLocation (microLocation ?s))) (Some (url demo_env)) =
             Some (demo_parse ''app.example'' ''/z#y'')"
    by (simp add: demo_defs)
  have r': "createURL demo_env (CHR ''/'' # dropWhile (\<lambda>c. c = CHR ''/'') ''/x'' @
                       search (shadowLocation (microLocation ?s)) @
                       hash (shadowLocation (microLocation ?s))) (Some (url demo_env)) =
             Some (demo_parse ''app.example'' ''/x#y'')"
    by (simp add: demo_defs)
  have r'': "createURL demo_env (CHR ''/'' # dropWhile (\<lambda>c. c = CHR ''/'') ''/x'' @
                       search (shadowLocation (microLocation (demo_state ''/x''))) @
                       hash (shadowLocation (microLocation (demo_state ''/x''))))
               (Some (url demo_env)) =
             Some (demo_parse ''app.example'' ''/x'')"
    by (simp add: demo_defs)
  have a: "pathname_set demo_env ''/z'' ?s =
     Inr (?s\<lparr>effects := [History ''pushState'' ''/?app=/z#y'', Reload None]\<rparr>)"
    using pathname_set_spec [OF r] by (simp add: demo_defs)
  have b: "pathname_set demo_env ''/x'' ?s = Inr (?s\<lparr>effects := [PurePopStateEvent]\<rparr>)"
    using pathname_set_spec [OF r'] by (simp add: demo_defs)
  have c: "pathname_set demo_env ''/x'' (demo_state ''/x'') =
     Inr ((demo_state ''/x'')
            \<lparr>effects := [History ''replaceState'' ''/?app=/x'', Reload None]\<rparr>)"
    using pathname_set_spec [OF r''] by (simp add: demo_defs)
  show ?thesis using r a b c by simp
qed

text \<open>
  Claim C8. The setters of pathname, search and hash normalise the leading punctuation
  of the value before resolving. The normalised value is the punctuation character
  followed by the value without its leading run of that character: it starts with
  exactly one such character, and it is the same for the value with any number \<^verbatim>\<open>n\<close>
  of further leading characters. Each setter resolves the candidate built from that
  normalised value and the shadow's other components, and what it does depends on the
  value through that resolution only; therefore it behaves the same on \<^verbatim>\<open>//a\<close>,
  \<^verbatim>\<open>/a\<close> and \<^verbatim>\<open>a\<close> (and likewise for \<^verbatim>\<open>?\<close> and \<^verbatim>\<open>#\<close>).
\<close>

theorem leading_punctuation_normalized:
  "replaceLeading c (c # replicate n c @ v) = replaceLeading c (c # v) \<and>
   takeWhile (\<lambda>x. x = c) (replaceLeading c (c # v)) = [c] \<and>
   pathname_set E (replicate n CHR ''/'' @ v) s = pathname_set E v s \<and>
   search_set E (replicate n CHR ''?'' @ v) s = search_set E v s \<and>
   hash_set E (replicate n CHR ''#'' @ v) s = hash_set E v s \<and>
   replaceLeading c (c # v) = c # dropWhile (\<lambda>x. x = c) v \<and>
   pathname_set E v s =
     (case createURL E ((CHR ''/'' # dropWhile (\<lambda>x. x = CHR ''/'') v) @
                        search (shadowLocation (microLocation s)) @
                        hash (shadowLocation (microLocation s))) (Some (url E)) of
        None \<Rightarrow> Inl TypeError
      | Some targetLocation \<Rightarrow>
          if pathname targetLocation = pathname (shadowLocation (microLocation s)) \<and>
             hash (shadowLocation (microLocation s)) \<noteq> []
          then Inr (s\<lparr>effects := effects s @ [PurePopStateEvent]\<rparr>)
          else Inr (s\<lparr>effects := effects s @
                 [History (if pathname targetLocation = pathname (shadowLocation (microLocation s))
                           then ''replaceState'' else ''pushState'')
                    (fullPath (setMicroPathToURL E (appName E) targetLocation)),
                  Reload None]\<rparr>)) \<and>
   search_set E v s =
     (case createURL E (pathname (shadowLocation (microLocation s)) @
                        (CHR ''?'' # dropWhile (\<lambda>x. x = CHR ''?'') v) @
                        hash (shadowLocation (microLocation s))) (Some (url E)) of
        None \<Rightarrow> Inl TypeError
      | Some targetLocation \<Rightarrow>
          if search targetLocation = search (shadowLocation (microLocation s)) \<and>
             hash (shadowLocation (microLocation s)) \<noteq> []
          then Inr (s\<lparr>effects := effects s @ [PurePopStateEvent]\<rparr>)
          else Inr (s\<lparr>effects := effects s @
                 [History (if search targetLocation = search (shadowLocation (microLocation s))
                           then ''replaceState'' else ''pushState'')
                    (fullPath (setMicroPathToURL E (appName E) targetLocation)),
                  Reload None]\<rparr>)) \<and>
   hash_set E v s =
     (case createURL E (pathname (shadowLocation (microLocation s)) @
                        search (shadowLocation (microLocation s)) @
                        (CHR ''#'' # dropWhile (\<lambda>x. x = CHR ''#'') v)) (Some (url E)) of
        None \<Rightarrow> Inl TypeError
      | Some targetLocation \<Rightarrow>
          if hash targetLocation \<noteq> hash (shadowLocation (microLocation s))
          then Inr (s\<lparr>effects := effects s @
                 [History ''pushState''
                    (fullPath (setMicroPathToURL E (appName E) targetLocation)),
                  PurePopStateEvent]\<rparr>)
          else Inr s)"
proof -
  have a: "replaceLeading c (c # replicate n c @ v) = replaceLeading c (c # v)" for c
    by (simp add: replaceLeading_Cons dropWhile_replicate_append)
  have "takeWhile (\<lambda>x. x = c) (dropWhile (\<lambda>x. x = c) v) = []"
    by (induction v) simp_all
  then have b: "takeWhile (\<lambda>x. x = c) (replaceLeading c (c # v)) = [c]"
    by (simp add: replaceLeading_Cons)
  have same: "pathname_set E (replicate n CHR ''/'' @ v) s = pathname_set E v s \<and>
              search_set E (replicate n CHR ''?'' @ v) s = search_set E v s \<and>
              hash_set E (replicate n CHR ''#'' @ v) s = hash_set E v s"
    using a by (simp add: pathname_set_def search_set_def hash_set_def)
  have p: "pathname_set E v s =
     (case createURL E ((CHR ''/'' # dropWhile (\<lambda>x. x = CHR ''/'') v) @
                        search (shadowLocation (microLocation s)) @
                        hash (shadowLocation (microLocation s))) (Some (url E)) of
        None \<Rightarrow> Inl TypeError
      | Some targetLocation \<Rightarrow>
          if pathname targetLocation = pathname (shadowLocation (microLocation s)) \<and>
             hash (shadowLocation (microLocation s)) \<noteq> []
          then Inr (s\<lparr>effects := effects s @ [PurePopStateEvent]\<rparr>)
          else Inr (s\<lparr>effects := effects s @
                 [History (if pathname targetLocation = pathname (shadowLocation (microLocation s))
                           then ''replaceState'' else ''pushState'')
                    (fullPath (setMicroPathToURL E (appName E) targetLocation)),
                  Reload None]\<rparr>))"
    by (simp add: pathname_set_def replaceLeading_Cons raw_defs split: option.splits)
  have q: "search_set E v s =
     (case createURL E (pathname (shadowLocation (microLocation s)) @
                        (CHR ''?'' # dropWhile (\<lambda>x. x = CHR ''?'') v) @
                        hash (shadowLocation (microLocation s))) (Some (url E)) of
        None \<Rightarrow> Inl TypeError
      | Some targetLocation \<Rightarrow>
          if search targetLocation = search (shadowLocation (microLocation s)) \<and>
             hash (shadowLocation (microLocation s)) \<noteq> []
          then Inr (s\<lparr>effects := effects s @ [PurePopStateEvent]\<rparr>)
          else Inr (s\<lparr>effects := effects s @
                 [History (if search targetLocation = search (shadowLocation (microLocation s))
                           then ''replaceState'' else ''pushState'')
                    (fullPath (setMicroPathToURL E (appName E) targetLocation)),
                  Reload None]\<rparr>))"
    by (simp add: search_set_def replaceLeading_Cons raw_defs split: option.splits)
  have h: "hash_set E v s =
     (case createURL E (pathname (shadowLocation (microLocation s)) @
                        search (shadowLocation (microLocation s)) @
                        (CHR ''#'' # dropWhile (\<lambda>x. x = CHR ''#'') v)) (Some (url E)) of
        None \<Rightarrow> Inl TypeError
      | Some targetLocation \<Rightarrow>
          if hash targetLocation \<noteq> hash (shadowLocation (microLocation s))
          then Inr (s\<lparr>effects := effects s @
                 [History ''pushState''
                    (fullPath (setMicroPathToURL E (appName E) targetLocation)),
                  PurePopStateEvent]\<rparr>)
          else Inr s)"
    by (simp add: hash_set_def replaceLeading_Cons raw_defs split: option.splits)
  from a b same replaceLeading_Cons [of c v] p q h show ?thesis
    by (intro conjI) (simp_all only:)
qed

theorem leading_punctuation_normalized_witness:
  "replaceLeading CHR ''/'' (CHR ''/'' # ''//a'') = ''/a'' \<and>
   replaceLeading CHR ''/'' (CHR ''/'' # ''a'') = ''/a'' \<and>
   pathname_set demo_env ''//a'' (demo_state ''/x'') =
     Inr ((demo_state ''/x'')\<lparr>effects := [History ''pushState'' ''/?app=/a'', Reload None]\<rparr>) \<and>
   pathname_set demo_env ''a'' (demo_state ''/x'') =
     Inr ((demo_state ''/x'')\<lparr>effects := [History ''pushState'' ''/?app=/a'', Reload None]\<rparr>) \<and>
   search_set demo_env ''??a'' (demo_state ''/x'') =
     Inr ((demo_state ''/x'')\<lparr>effects := [History ''pushState'' ''/?app=/x?a'', Reload None]\<rparr>) \<and>
   search_set demo_env ''a'' (demo_state ''/x'') =
     Inr ((demo_state ''/x'')\<lparr>effects := [History ''pushState'' ''/?app=/x?a'', Reload None]\<rparr>) \<and>
   hash_set demo_env ''##a'' (demo_state ''/x'') =
     Inr ((demo_state ''/x'')
            \<lparr>effects := [History ''pushState'' ''/?app=/x#a'', PurePopStateEvent]\<rparr>) \<and>
   hash_set demo_env ''a'' (demo_state ''/x'') =
     Inr ((demo_state ''/x'')
            \<lparr>effects := [History ''pushState'' ''/?app=/x#a'', PurePopStateEvent]\<rparr>)"
proof -
  note t = leading_punctuation_normalized
             [of "CHR ''/''" "Suc (Suc 0)" "''a''" demo_env "demo_state ''/x''"]
  have n: "replaceLeading CHR ''/'' (CHR ''/'' # ''a'') = ''/a''"
    using t by simp
  have n2: "replaceLeading CHR ''/'' (CHR ''/'' # ''//a'') = ''/a''"
    using t n by simp
  have p: "pathname_set demo_env ''a'' (demo_state ''/x'') =
     Inr ((demo_state ''/x'')\<lparr>effects := [History ''pushState'' ''/?app=/a'', Reload None]\<rparr>)"
    using t by (simp add: demo_defs)
  have q: "search_set demo_env ''a'' (demo_state ''/x'') =
     Inr ((demo_state ''/x'')\<lparr>effects := [History ''pushState'' ''/?app=/x?a'', Reload None]\<rparr>)"
    using t by (simp add: demo_defs)
  have h: "hash_set demo_env ''a'' (demo_state ''/x'') =
     Inr ((demo_state ''/x'')
            \<lparr>effects := [History ''pushState'' ''/?app=/x#a'', PurePopStateEvent]\<rparr>)"
    using t by (simp add: demo_defs)
  have p2: "pathname_set demo_env ''//a'' (demo_state ''/x'') =
              pathname_set demo_env ''a'' (demo_state ''/x'')"
    using t by simp
  have q2: "search_set demo_env ''??a'' (demo_state ''/x'') =
              search_set demo_env ''a'' (demo_state ''/x'')"
    using t by simp
  have h2: "hash_set demo_env ''##a'' (demo_state ''/x'') =
              hash_set demo_env ''a'' (demo_state ''/x'')"
    using t by simp
  show ?thesis
    using n n2 p q h p2 q2 h2 by simp
qed

subsection \<open>updateLocation\<close>



subsection \<open>The shadow location is only read\<close>

text \<open>
  Claim C10. No execution of \<^verbatim>\<open>commonHandle\<close>, of \<^verbatim>\<open>assign\<close> or \<^verbatim>\<open>replace\<close>, or of
  the setters of href, pathname, search and hash changes the \<^verbatim>\<open>shadowLocation\<close> record:
  after it the four getters return what they returned before. Only \<^verbatim>\<open>updateLocation\<close>
  stores into the record.
\<close>

theorem setters_keep_shadowLocation:
  assumes "commonHandle E value methodName s = Inr (r, s') \<or>
           assign E value s = Inr s' \<or>
           replace E value s = Inr s' \<or>
           href_set E v s = Inr s' \<or>
           pathname_set E v s = Inr s' \<or>
           search_set E v s = Inr s' \<or>
           hash_set E v s = Inr s'"
  shows "shadowLocation (microLocation s') = shadowLocation (microLocation s) \<and>
         href_get s' = href_get s \<and> pathname_get s' = pathname_get s \<and>
         search_get s' = search_get s \<and> hash_get s' = hash_get s"
proof -
  have "microLocation s' = microLocation s"
    using assms commonHandle_effects createLocationMethod_microLocation href_set_microLocation
      pathname_set_effects search_set_effects hash_set_effects
    unfolding assign_def replace_def by metis
  then show ?thesis
    by (simp add: href_get_def pathname_get_def search_get_def hash_get_def)
qed

theorem setters_keep_shadowLocation_witness:
  "hash_set demo_env ''y'' (demo_state ''/x'') =
     Inr ((demo_state ''/x'')
            \<lparr>effects := [History ''pushState'' ''/?app=/x#y'', PurePopStateEvent]\<rparr>) \<and>
   hash_get ((demo_state ''/x'')
            \<lparr>effects := [History ''pushState'' ''/?app=/x#y'', PurePopStateEvent]\<rparr>) = [] \<and>
   hash_get (demo_state ''/x'') = []"
proof -
  let ?s' = "(demo_state ''/x'')
               \<lparr>effects := [History ''pushState'' ''/?app=/x#y'', PurePopStateEvent]\<rparr>"
  have h: "hash_set demo_env ''y'' (demo_state ''/x'') = Inr ?s'"
    by (simp add: hash_set_def replaceLeading_def raw_defs demo_defs)
  have g: "hash_get (demo_state ''/x'') = []"
    by (simp add: hash_get_def demo_defs)
  have "commonHandle demo_env (String []) [] (demo_state ''/x'') = Inr (None, ?s') \<or>
        assign demo_env (String []) (demo_state ''/x'') = Inr ?s' \<or>
        replace demo_env (String []) (demo_state ''/x'') = Inr ?s' \<or>
        href_set demo_env ''y'' (demo_state ''/x'') = Inr ?s' \<or>
        pathname_set demo_env ''y'' (demo_state ''/x'') = Inr ?s' \<or>
        search_set demo_env ''y'' (demo_state ''/x'') = Inr ?s' \<or>
        hash_set demo_env ''y'' (demo_state ''/x'') = Inr ?s'"
    using h by blast
  from setters_keep_shadowLocation [OF this]
  have "hash_get ?s' = hash_get (demo_state ''/x'')"
    by blast
  then show ?thesis using h g by simp
qed

end
